theory Spec2Isabelle
  imports Main "HOL-Library.Sublist"
begin

section \<open>Python values\<close>

text \<open>
  The attributes of \<open>Device\<close> hold Python values that come out of \<open>json.loads\<close>, out of
  the JSON helper and out of the management console: \<open>None\<close>, booleans, integers, strings,
  lists and dictionaries. A dictionary is an association list in iteration order; its keys
  are pairwise different (as in every Python \<open>dict\<close>). Floating-point numbers are not
  modelled.
\<close>

datatype pyval =
    PNone
  | PBool bool
  | PInt int
  | PStr string
  | PList "pyval list"
  | PDict "(pyval \<times> pyval) list"

text \<open>The exceptions that the modelled methods can raise.\<close>

datatype py_error = AttributeError | KeyError | IndexError | TypeError | ValueError

text \<open>Python's truth value testing (\<open>if x:\<close>, \<open>if not x:\<close>).\<close>

fun truthy :: "pyval \<Rightarrow> bool" where
  "truthy PNone = False"
| "truthy (PBool b) = b"
| "truthy (PInt n) = (n \<noteq> 0)"
| "truthy (PStr s) = (s \<noteq> [])"
| "truthy (PList xs) = (xs \<noteq> [])"
| "truthy (PDict kvs) = (kvs \<noteq> [])"

text \<open>\<open>needle in haystack\<close> on two strings: substring containment.\<close>

fun str_in :: "string \<Rightarrow> string \<Rightarrow> bool" where
  "str_in needle [] = (needle = [])"
| "str_in needle (c # cs) = (prefix needle (c # cs) \<or> str_in needle cs)"

text \<open>
  Dictionary keys compare with \<open>==\<close>, under which \<open>True == 1\<close> and \<open>False == 0\<close>; lists and
  dictionaries are not hashable and cannot be keys.
\<close>

fun as_int :: "pyval \<Rightarrow> int option" where
  "as_int (PBool b) = Some (if b then 1 else 0)"
| "as_int (PInt n) = Some n"
| "as_int v = None"

definition key_eq :: "pyval \<Rightarrow> pyval \<Rightarrow> bool" where
  "key_eq a b = (a = b \<or> (as_int a \<noteq> None \<and> as_int a = as_int b))"

fun hashable :: "pyval \<Rightarrow> bool" where
  "hashable (PList xs) = False"
| "hashable (PDict kvs) = False"
| "hashable v = True"

fun dict_get :: "(pyval \<times> pyval) list \<Rightarrow> pyval \<Rightarrow> pyval option" where
  "dict_get [] k = None"
| "dict_get ((k', v) # kvs) k = (if key_eq k' k then Some v else dict_get kvs k)"

text \<open>\<open>d[k] = v\<close> on a dictionary: an existing key keeps its place, a new one is added.\<close>

fun dict_set :: "pyval \<Rightarrow> pyval \<Rightarrow> (pyval \<times> pyval) list \<Rightarrow> (pyval \<times> pyval) list" where
  "dict_set k v [] = [(k, v)]"
| "dict_set k v ((k', v') # kvs) =
     (if key_eq k' k then (k', v) # kvs else (k', v') # dict_set k v kvs)"

text \<open>
  The position that the index \<open>i\<close> names in a sequence of length \<open>len\<close>: \<open>0\<close> to \<open>len - 1\<close>
  count from the front, \<open>-1\<close> down to \<open>-len\<close> from the back, and every other index is out of
  range.
\<close>

definition seq_position :: "nat \<Rightarrow> int \<Rightarrow> nat option" where
  "seq_position len i =
     (if 0 \<le> i \<and> i < int len then Some (nat i)
      else if i < 0 \<and> - int len \<le> i then Some (nat (int len + i))
      else None)"

definition seq_index :: "'a list \<Rightarrow> int \<Rightarrow> py_error + 'a" where
  "seq_index xs i =
     (case seq_position (length xs) i of
        None \<Rightarrow> Inl IndexError
      | Some j \<Rightarrow> Inr (xs ! j))"

text \<open>\<open>obj[key]\<close>.\<close>

fun py_getitem :: "pyval \<Rightarrow> pyval \<Rightarrow> py_error + pyval" where
  "py_getitem (PDict kvs) k =
     (if hashable k
      then (case dict_get kvs k of None \<Rightarrow> Inl KeyError | Some v \<Rightarrow> Inr v)
      else Inl TypeError)"
| "py_getitem (PList xs) k =
     (case as_int k of None \<Rightarrow> Inl TypeError | Some i \<Rightarrow> seq_index xs i)"
| "py_getitem (PStr s) k =
     (case as_int k of None \<Rightarrow> Inl TypeError
      | Some i \<Rightarrow> (case seq_index s i of Inl err \<Rightarrow> Inl err | Inr c \<Rightarrow> Inr (PStr [c])))"
| "py_getitem v k = Inl TypeError"

text \<open>\<open>obj[key] = value\<close>: the object after the assignment.\<close>

fun py_setitem :: "pyval \<Rightarrow> pyval \<Rightarrow> pyval \<Rightarrow> py_error + pyval" where
  "py_setitem (PDict kvs) k v =
     (if hashable k then Inr (PDict (dict_set k v kvs)) else Inl TypeError)"
| "py_setitem (PList xs) k v =
     (case as_int k of None \<Rightarrow> Inl TypeError
      | Some i \<Rightarrow>
          (case seq_position (length xs) i of
             None \<Rightarrow> Inl IndexError
           | Some j \<Rightarrow> Inr (PList (xs[j := v]))))"
| "py_setitem obj k v = Inl TypeError"

text \<open>\<open>for k in obj\<close>: the values that the loop variable takes.\<close>

fun py_iter :: "pyval \<Rightarrow> py_error + pyval list" where
  "py_iter (PDict kvs) = Inr (map fst kvs)"
| "py_iter (PList xs) = Inr xs"
| "py_iter (PStr s) = Inr (map (\<lambda>c. PStr [c]) s)"
| "py_iter v = Inl TypeError"

text \<open>\<open>'literal' in obj\<close>, with a string literal on the left.\<close>

fun py_str_in :: "string \<Rightarrow> pyval \<Rightarrow> py_error + bool" where
  "py_str_in lit (PDict kvs) = Inr (dict_get kvs (PStr lit) \<noteq> None)"
| "py_str_in lit (PList xs) = Inr (PStr lit \<in> set xs)"
| "py_str_in lit (PStr s) = Inr (str_in lit s)"
| "py_str_in lit v = Inl TypeError"

text \<open>Sequencing of two evaluations, the first of which may raise.\<close>

definition and_then :: "py_error + 'a \<Rightarrow> ('a \<Rightarrow> py_error + 'b) \<Rightarrow> py_error + 'b" where
  "and_then r f = (case r of Inl err \<Rightarrow> Inl err | Inr v \<Rightarrow> f v)"

section \<open>Collaborators\<close>

text \<open>
  \<open>Transport.HTTPReq(url, headers, data, user, auth_token)\<close>: the keyword arguments that a
  call leaves out are \<open>PNone\<close>.
\<close>

record request =
  r_url :: pyval
  r_headers :: pyval
  r_data :: pyval
  r_user :: pyval
  r_auth_token :: pyval

text \<open>The dictionary that \<open>HTTPReq\<close> returns: \<open>response['code']\<close>, \<open>['headers']\<close>, \<open>['data']\<close>.\<close>

record response =
  code :: pyval
  headers :: pyval
  data :: string

text \<open>The five URLs that \<open>Privet.SetPrivetUrls\<close> returns as \<open>privet_url\<close>.\<close>

record privet_urls =
  url_info :: string
  url_start :: string
  url_getClaimToken :: string
  url_complete :: string
  url_cancel :: string

text \<open>
  The modules \<open>_transport\<close>, \<open>_jsonparser\<close>, \<open>_privet\<close>, \<open>_cloudprintmgr\<close> and \<open>_config\<close> are
  imported by \<open>_device.py\<close>; every method and constant of theirs that \<open>Device\<close> uses is a
  parameter here. The transport answers a request as a function of the requests sent
  before it and of the request itself; the console answers as a function of the console
  calls made before. \<open>Read\<close> returns a dictionary. Python's own \<open>str\<close> and \<open>json.loads\<close>
  (which raises \<open>ValueError\<close> on a malformed document) are parameters as well.
\<close>

datatype console_call =
    PageReset
  | ErrorStateCall
  | WarningStateCall
  | StateCall
  | StateMessagesCall
  | DetailsCall

record env =
  HTTPReq :: "request list \<Rightarrow> request \<Rightarrow> response"
  LogData :: "response \<Rightarrow> bool"
  Read :: "string \<Rightarrow> (pyval \<times> pyval) list"
  GetValue :: "string \<Rightarrow> string \<Rightarrow> pyval"
  Validate :: "string \<Rightarrow> pyval"
  SetPrivetUrls :: "string \<Rightarrow> pyval \<Rightarrow> privet_urls"
  headers_empty :: pyval
  GetPrinterErrorState :: "console_call list \<Rightarrow> string \<Rightarrow> pyval"
  GetPrinterWarningState :: "console_call list \<Rightarrow> string \<Rightarrow> pyval"
  GetPrinterState :: "console_call list \<Rightarrow> string \<Rightarrow> pyval"
  GetPrinterStateMessages :: "console_call list \<Rightarrow> string \<Rightarrow> pyval"
  GetPrinterDetails :: "console_call list \<Rightarrow> string \<Rightarrow> pyval"
  PRINTER_MODEL :: pyval
  PRINTER_IP :: string
  PRINTER_PORT :: pyval
  PRINTER_NAME :: string
  USER_EMAIL :: string
  GCP_URL :: string
  str :: "pyval \<Rightarrow> string"
  json_loads :: "string \<Rightarrow> py_error + pyval"

text \<open>What has happened outside the object: the requests sent and the console calls made.\<close>

record world =
  sent :: "request list"
  console :: "console_call list"

section \<open>The device object\<close>

text \<open>
  The attributes of a \<open>Device\<close>. The four attributes that \<open>__init__\<close> does not assign
  (\<open>claim_token\<close>, \<open>automated_claim_url\<close>, \<open>claim_url\<close>, \<open>id\<close>) are optional: \<open>None\<close> is an
  attribute that the object does not have, so that reading it raises \<open>AttributeError\<close>;
  \<open>Some PNone\<close> is an attribute whose value is Python's \<open>None\<close>. The handles of the
  collaborators (\<open>logger\<close>, \<open>cd\<close>, \<open>cloudprintmgr\<close>, \<open>transport\<close>, \<open>jparser\<close>, \<open>privet\<close>) and
  the string \<open>url\<close>, which is only logged, are not fields.
\<close>

record device =
  model :: pyval
  ipv4 :: string
  port :: pyval
  name :: string
  status :: pyval
  messages :: pyval
  details :: pyval
  error_state :: pyval
  warning_state :: pyval
  cdd :: "(pyval \<times> pyval) list"
  info :: pyval
  dev_headers :: pyval
  privet_url :: privet_urls
  privet_info :: "(pyval \<times> pyval) list"
  claim_token :: "pyval option"
  automated_claim_url :: "pyval option"
  claim_url :: "pyval option"
  device_id :: "pyval option"

text \<open>One call of \<open>self.transport.HTTPReq\<close>: the response, and the request recorded.\<close>

definition http :: "env \<Rightarrow> world \<Rightarrow> request \<Rightarrow> response" where
  "http e w r = HTTPReq e (sent w) r"

definition record_request :: "world \<Rightarrow> request \<Rightarrow> world" where
  "record_request w r = w\<lparr>sent := sent w @ [r]\<rparr>"

section \<open>Construction\<close>

text \<open>
  \<open>GetPrivetInfo\<close>. The \<open>else\<close> branch only logs, and the object is as before; but its loop
  \<open>for key in response['headers']\<close> evaluates \<open>response['headers'][key]\<close> for every key, and
  both the iteration and the subscript can raise.
\<close>

definition info_request :: "env \<Rightarrow> device \<Rightarrow> request" where
  "info_request e d =
     \<lparr>r_url = PStr (url_info (privet_url d)), r_headers = headers_empty e,
      r_data = PNone, r_user = PNone, r_auth_token = PNone\<rparr>"

fun copy_info :: "(pyval \<times> pyval) list \<Rightarrow> pyval list \<Rightarrow> device \<Rightarrow> (py_error + unit) \<times> device" where
  "copy_info parsed [] d = (Inr (), d)"
| "copy_info parsed (key # keys) d =
     (case py_getitem (PDict parsed) key of
        Inl err \<Rightarrow> (Inl err, d)
      | Inr v \<Rightarrow> copy_info parsed keys (d\<lparr>privet_info := dict_set key v (privet_info d)\<rparr>))"

fun log_headers :: "pyval \<Rightarrow> pyval list \<Rightarrow> py_error + unit" where
  "log_headers hs [] = Inr ()"
| "log_headers hs (key # keys) =
     (case py_getitem hs key of
        Inl err \<Rightarrow> Inl err
      | Inr v \<Rightarrow> log_headers hs keys)"

definition GetPrivetInfo :: "env \<Rightarrow> device \<Rightarrow> world \<Rightarrow> (py_error + unit) \<times> device \<times> world" where
  "GetPrivetInfo e d w =
     (let d1 = d\<lparr>privet_info := []\<rparr>;
          resp = http e w (info_request e d1);
          w1 = record_request w (info_request e d1);
          parsed = Read e (data resp)
      in case py_getitem (PDict parsed) (PStr ''json'') of
           Inl err \<Rightarrow> (Inl err, d1, w1)
         | Inr j \<Rightarrow>
             if truthy j then
               (case copy_info parsed (map fst parsed) d1 of
                  (Inl err, d2) \<Rightarrow> (Inl err, d2, w1)
                | (Inr u, d2) \<Rightarrow>
                    if dict_get parsed (PStr ''x-privet-token'') \<noteq> None then
                      (case py_getitem (PDict parsed) (PStr ''x-privet-token'') of
                         Inl err \<Rightarrow> (Inl err, d2, w1)
                       | Inr t \<Rightarrow>
                           (Inr (),
                            d2\<lparr>dev_headers := PDict [(PStr ''X-Privet-Token'', PStr (str e t))]\<rparr>,
                            w1))
                    else (Inr (), d2, w1))
             else if truthy (headers resp) then
               (case and_then (py_iter (headers resp)) (log_headers (headers resp)) of
                  Inl err \<Rightarrow> (Inl err, d1, w1)
                | Inr u \<Rightarrow> (Inr (), d1, w1))
             else (Inr (), d1, w1))"

text \<open>
  \<open>__init__(logger, chromedriver, model=None, privet_port=None)\<close>. It assigns neither
  \<open>claim_token\<close>, \<open>automated_claim_url\<close>, \<open>claim_url\<close> nor \<open>id\<close>. An exception of
  \<open>GetPrivetInfo\<close> leaves \<open>__init__\<close>, and no object is constructed.
\<close>

definition Device_init :: "env \<Rightarrow> pyval \<Rightarrow> pyval \<Rightarrow> world \<Rightarrow> (py_error + device) \<times> world" where
  "Device_init e model_arg privet_port w =
     (let the_port = (if truthy privet_port then privet_port else PRINTER_PORT e);
          d = \<lparr>model = (if truthy model_arg then model_arg else PRINTER_MODEL e),
               ipv4 = PRINTER_IP e,
               port = the_port,
               name = PRINTER_NAME e,
               status = PNone,
               messages = PDict [],
               details = PDict [],
               error_state = PBool False,
               warning_state = PBool False,
               cdd = [],
               info = PNone,
               dev_headers = PNone,
               privet_url = SetPrivetUrls e (PRINTER_IP e) the_port,
               privet_info = [],
               claim_token = None,
               automated_claim_url = None,
               claim_url = None,
               device_id = None\<rparr>
      in case GetPrivetInfo e d w of
           (Inl err, d1, w1) \<Rightarrow> (Inl err, w1)
         | (Inr u, d1, w1) \<Rightarrow> (Inr d1, w1))"

section \<open>GetDeviceDetails\<close>






section \<open>ParseCDD\<close>

text \<open>\<open>cdd['printers'][0]\<close>, \<open>cdd['printers'][0][k]\<close> and
  \<open>cdd['printers'][0]['capabilities']['printer']\<close>, evaluated from left to right.\<close>

definition first_printer :: "pyval \<Rightarrow> py_error + pyval" where
  "first_printer doc = and_then (py_getitem doc (PStr ''printers'')) (\<lambda>ps. py_getitem ps (PInt 0))"

definition printer_field :: "pyval \<Rightarrow> pyval \<Rightarrow> py_error + pyval" where
  "printer_field doc k = and_then (first_printer doc) (\<lambda>p. py_getitem p k)"

definition printer_caps :: "pyval \<Rightarrow> py_error + pyval" where
  "printer_caps doc =
     and_then (printer_field doc (PStr ''capabilities'')) (\<lambda>c. py_getitem c (PStr ''printer''))"

text \<open>The first loop, over the keys of the first printer; the dictionary is \<open>self.cdd\<close>.\<close>

fun copy_printer_fields ::
  "pyval \<Rightarrow> pyval list \<Rightarrow> (pyval \<times> pyval) list \<Rightarrow> (py_error + unit) \<times> (pyval \<times> pyval) list" where
  "copy_printer_fields doc [] c = (Inr (), c)"
| "copy_printer_fields doc (k # ks) c =
     (if k = PStr ''capabilities''
      then copy_printer_fields doc ks (dict_set (PStr ''caps'') (PDict []) c)
      else (case printer_field doc k of
              Inl err \<Rightarrow> (Inl err, c)
            | Inr v \<Rightarrow>
                if hashable k then copy_printer_fields doc ks (dict_set k v c)
                else (Inl TypeError, c)))"

text \<open>The second loop: \<open>self.cdd['caps'][k] = cdd['printers'][0]['capabilities']['printer'][k]\<close>,
  the right-hand side first.\<close>

fun copy_caps ::
  "pyval \<Rightarrow> pyval list \<Rightarrow> (pyval \<times> pyval) list \<Rightarrow> (py_error + unit) \<times> (pyval \<times> pyval) list" where
  "copy_caps doc [] c = (Inr (), c)"
| "copy_caps doc (k # ks) c =
     (case and_then (printer_caps doc) (\<lambda>p. py_getitem p k) of
        Inl err \<Rightarrow> (Inl err, c)
      | Inr v \<Rightarrow>
          (case dict_get c (PStr ''caps'') of
             None \<Rightarrow> (Inl KeyError, c)
           | Some caps \<Rightarrow>
               (case py_setitem caps k v of
                  Inl err \<Rightarrow> (Inl err, c)
                | Inr caps' \<Rightarrow> copy_caps doc ks (dict_set (PStr ''caps'') caps' c))))"

text \<open>\<open>json.loads(self.info)\<close>: a value that is not a string raises \<open>TypeError\<close>.\<close>

definition loads_info :: "env \<Rightarrow> pyval \<Rightarrow> py_error + pyval" where
  "loads_info e v = (case v of PStr s \<Rightarrow> json_loads e s | _ \<Rightarrow> Inl TypeError)"

definition ParseCDD :: "env \<Rightarrow> device \<Rightarrow> (py_error + bool) \<times> device" where
  "ParseCDD e d =
     (if truthy (info d) then
        (case loads_info e (info d) of
           Inl err \<Rightarrow> (Inl err, d)
         | Inr doc \<Rightarrow>
             (case py_str_in ''printers'' doc of
                Inl err \<Rightarrow> (Inl err, d)
              | Inr False \<Rightarrow> (Inr False, d)
              | Inr True \<Rightarrow>
                  (case and_then (first_printer doc) py_iter of
                     Inl err \<Rightarrow> (Inl err, d)
                   | Inr ks \<Rightarrow>
                       (case copy_printer_fields doc ks (cdd d) of
                          (Inl err, c) \<Rightarrow> (Inl err, d\<lparr>cdd := c\<rparr>)
                        | (Inr u, c) \<Rightarrow>
                            (case and_then (printer_caps doc) py_iter of
                               Inl err \<Rightarrow> (Inl err, d\<lparr>cdd := c\<rparr>)
                             | Inr cs \<Rightarrow>
                                 (case copy_caps doc cs c of
                                    (Inl err, c') \<Rightarrow> (Inl err, d\<lparr>cdd := c'\<rparr>)
                                  | (Inr u', c') \<Rightarrow> (Inr True, d\<lparr>cdd := c'\<rparr>)))))))
      else (Inr False, d))"

section \<open>Registration\<close>

definition privet_request :: "env \<Rightarrow> device \<Rightarrow> string \<Rightarrow> request" where
  "privet_request e d u =
     \<lparr>r_url = PStr u, r_headers = dev_headers d, r_data = PStr [],
      r_user = PStr (USER_EMAIL e), r_auth_token = PNone\<rparr>"

definition CancelRegistration :: "env \<Rightarrow> device \<Rightarrow> world \<Rightarrow> pyval \<times> device \<times> world" where
  "CancelRegistration e d w =
     (let r = privet_request e d (url_cancel (privet_url d))
      in (code (http e w r), d, record_request w r))"

definition StartPrivetRegister :: "env \<Rightarrow> device \<Rightarrow> world \<Rightarrow> bool \<times> device \<times> world" where
  "StartPrivetRegister e d w =
     (let r = privet_request e d (url_start (privet_url d))
      in (LogData e (http e w r), d, record_request w r))"

subsection \<open>GetPrivetClaimToken\<close>

definition max_cycles :: int where
  "max_cycles = 5"

definition claim_request :: "env \<Rightarrow> device \<Rightarrow> request" where
  "claim_request e d = privet_request e d (url_getClaimToken (privet_url d))"

text \<open>
  The \<open>while counter < max_cycles\<close> loop. The counter grows only in the
  \<open>pending_user_action\<close> branch, so the loop is a partial function: \<open>None\<close> is a call that
  does not return.
\<close>

partial_function (option) claim_loop ::
  "env \<Rightarrow> int \<Rightarrow> device \<Rightarrow> world \<Rightarrow> ((py_error + bool) \<times> device \<times> world) option" where
  "claim_loop e counter d w =
     (if counter < max_cycles then
        (let resp = http e w (claim_request e d);
             w1 = record_request w (claim_request e d);
             logged = LogData e resp
         in if str_in ''token'' (data resp) then
              Some (Inr True,
                    d\<lparr>claim_token := Some (GetValue e (data resp) ''token''),
                      automated_claim_url := Some (GetValue e (data resp) ''automated_claim_url''),
                      claim_url := Some (GetValue e (data resp) ''claim_url'')\<rparr>,
                    w1)
            else if str_in ''error'' (data resp) then
              (if str_in ''pending_user_action'' (data resp)
               then claim_loop e (counter + 1) d w1
               else Some (Inr False, d, w1))
            else claim_loop e counter d w1)
      else Some (Inr False, d, w))"

definition GetPrivetClaimToken ::
  "env \<Rightarrow> device \<Rightarrow> world \<Rightarrow> ((py_error + bool) \<times> device \<times> world) option" where
  "GetPrivetClaimToken e d w = claim_loop e 0 d w"

subsection \<open>SendClaimToken\<close>

definition send_request :: "env \<Rightarrow> pyval \<Rightarrow> pyval \<Rightarrow> request" where
  "send_request e u auth_token =
     \<lparr>r_url = u, r_headers = PNone, r_data = PStr [],
      r_user = PStr (USER_EMAIL e), r_auth_token = auth_token\<rparr>"

definition SendClaimToken ::
  "env \<Rightarrow> pyval \<Rightarrow> device \<Rightarrow> world \<Rightarrow> (py_error + bool) \<times> device \<times> world" where
  "SendClaimToken e auth_token d w =
     (case claim_token d of
        None \<Rightarrow> (Inl AttributeError, d, w)
      | Some tok \<Rightarrow>
          if \<not> truthy tok then (Inr False, d, w)
          else
            (case automated_claim_url d of
               None \<Rightarrow> (Inl AttributeError, d, w)
             | Some u \<Rightarrow>
                 if \<not> truthy u then (Inr False, d, w)
                 else
                   (let resp = http e w (send_request e u auth_token);
                        w1 = record_request w (send_request e u auth_token);
                        logged = LogData e resp;
                        parsed = Read e (data resp)
                    in case py_getitem (PDict parsed) (PStr ''json'') of
                         Inl err \<Rightarrow> (Inl err, d, w1)
                       | Inr j \<Rightarrow>
                           if truthy j then
                             (case py_getitem (PDict parsed) (PStr ''success'') of
                                Inl err \<Rightarrow> (Inl err, d, w1)
                              | Inr ok \<Rightarrow>
                                  if truthy ok then (Inr True, d, w1) else (Inr False, d, w1))
                           else (Inr False, d, w1))))"

subsection \<open>FinishPrivetRegister\<close>

text \<open>The loop \<open>for k in info: if 'device_id' in k: self.id = info[k]\<close>.\<close>

fun adopt_device_id ::
  "(pyval \<times> pyval) list \<Rightarrow> pyval list \<Rightarrow> device \<Rightarrow> (py_error + unit) \<times> device" where
  "adopt_device_id parsed [] d = (Inr (), d)"
| "adopt_device_id parsed (k # ks) d =
     (case py_str_in ''device_id'' k of
        Inl err \<Rightarrow> (Inl err, d)
      | Inr True \<Rightarrow>
          (case py_getitem (PDict parsed) k of
             Inl err \<Rightarrow> (Inl err, d)
           | Inr v \<Rightarrow> adopt_device_id parsed ks (d\<lparr>device_id := Some v\<rparr>))
      | Inr False \<Rightarrow> adopt_device_id parsed ks d)"

definition complete_request :: "env \<Rightarrow> device \<Rightarrow> request" where
  "complete_request e d = privet_request e d (url_complete (privet_url d))"

definition FinishPrivetRegister ::
  "env \<Rightarrow> device \<Rightarrow> world \<Rightarrow> (py_error + bool) \<times> device \<times> world" where
  "FinishPrivetRegister e d w =
     (let resp = http e w (complete_request e d);
          w1 = record_request w (complete_request e d);
          parsed = Read e (data resp)
      in case py_getitem (PDict parsed) (PStr ''json'') of
           Inl err \<Rightarrow> (Inl err, d, w1)
         | Inr j \<Rightarrow>
             if truthy j then
               (case adopt_device_id parsed (map fst parsed) d of
                  (Inl err, d1) \<Rightarrow> (Inl err, d1, w1)
                | (Inr u, d1) \<Rightarrow> (Inr (LogData e resp), d1, w1))
             else (Inr (LogData e resp), d, w1))"

subsection \<open>UnRegister\<close>

text \<open>\<open>'%s/delete?printerid=%s' % (Constants.AUTH['URL']['GCP'], self.id)\<close>.\<close>

definition delete_request :: "env \<Rightarrow> pyval \<Rightarrow> pyval \<Rightarrow> request" where
  "delete_request e i auth_token =
     \<lparr>r_url = PStr (GCP_URL e @ ''/delete?printerid='' @ str e i), r_headers = PNone,
      r_data = PStr [], r_user = PNone, r_auth_token = auth_token\<rparr>"

definition UnRegister ::
  "env \<Rightarrow> pyval \<Rightarrow> device \<Rightarrow> world \<Rightarrow> (py_error + bool) \<times> device \<times> world" where
  "UnRegister e auth_token d w =
     (case device_id d of
        None \<Rightarrow> (Inl AttributeError, d, w)
      | Some i \<Rightarrow>
          if truthy i then
            (let resp = http e w (delete_request e i auth_token);
                 w1 = record_request w (delete_request e i auth_token);
                 result = Validate e (data resp)
             in if truthy result then (Inr True, d\<lparr>device_id := Some PNone\<rparr>, w1)
                else (Inr False, d, w1))
          else (Inr False, d, w))"

section \<open>Concrete collaborators\<close>

text \<open>
  A transport that answers every request with the same body, a JSON helper that reads
  every body as not JSON, and a console whose printer is online and reports no error,
  no warning and no message.
\<close>

definition stub_urls :: privet_urls where
  "stub_urls =
     \<lparr>url_info = ''http://192.168.1.2:80/privet/info'',
      url_start = ''http://192.168.1.2:80/privet/register?action=start'',
      url_getClaimToken = ''http://192.168.1.2:80/privet/register?action=getClaimToken'',
      url_complete = ''http://192.168.1.2:80/privet/register?action=complete'',
      url_cancel = ''http://192.168.1.2:80/privet/register?action=cancel''\<rparr>"

definition stub_env :: "string \<Rightarrow> env" where
  "stub_env body =
     \<lparr>HTTPReq = (\<lambda>h r. \<lparr>code = PInt 200, headers = PDict [], data = body\<rparr>),
      LogData = (\<lambda>r. code r = PInt 200),
      Read = (\<lambda>s. [(PStr ''json'', PBool False)]),
      GetValue = (\<lambda>s k. PNone),
      Validate = (\<lambda>s. PBool False),
      SetPrivetUrls = (\<lambda>ip p. stub_urls),
      headers_empty = PDict [(PStr ''X-Privet-Token'', PStr [])],
      GetPrinterErrorState = (\<lambda>h n. PBool False),
      GetPrinterWarningState = (\<lambda>h n. PBool False),
      GetPrinterState = (\<lambda>h n. PStr ''Online''),
      GetPrinterStateMessages = (\<lambda>h n. PDict []),
      GetPrinterDetails = (\<lambda>h n. PDict [(PStr ''Firmware'', PStr ''1.0'')]),
      PRINTER_MODEL = PStr ''Model'',
      PRINTER_IP = ''192.168.1.2'',
      PRINTER_PORT = PInt 80,
      PRINTER_NAME = ''Printer'',
      USER_EMAIL = ''user@example.com'',
      GCP_URL = ''https://www.google.com/cloudprint'',
      str = (\<lambda>v. case v of PStr s \<Rightarrow> s | _ \<Rightarrow> ''None''),
      json_loads = (\<lambda>s. Inl ValueError)\<rparr>"

definition nothing_yet :: world where
  "nothing_yet = \<lparr>sent = [], console = []\<rparr>"

text \<open>The object that \<open>Device(logger, chromedriver)\<close> constructs with these collaborators.\<close>

definition fresh :: device where
  "fresh =
     \<lparr>model = PStr ''Model'', ipv4 = ''192.168.1.2'', port = PInt 80, name = ''Printer'',
      status = PNone, messages = PDict [], details = PDict [],
      error_state = PBool False, warning_state = PBool False, cdd = [], info = PNone,
      dev_headers = PNone, privet_url = stub_urls, privet_info = [],
      claim_token = None, automated_claim_url = None, claim_url = None, device_id = None\<rparr>"

text \<open>The bodies of the poll protocol.\<close>

definition pending_body :: string where
  "pending_body = ''{\"error\":\"pending_user_action\"}''"

definition token_expired_body :: string where
  "token_expired_body = ''{\"error\":\"token_expired\"}''"

definition token_body :: string where
  "token_body = ''{\"token\":\"t0k3n\"}''"

text \<open>A transport that answers the first six requests with \<open>{}\<close> and every later one with
  a token.\<close>

definition late_env :: env where
  "late_env =
     (stub_env [])\<lparr>HTTPReq :=
        (\<lambda>h r. \<lparr>code = PInt 200, headers = PDict [],
                 data = (if length h < 6 then ''{}'' else token_body)\<rparr>)\<rparr>"

text \<open>A device that holds a claim token, and a JSON helper that reads every body as the
  JSON object \<open>{}\<close>: \<open>Read\<close> adds the key \<open>json\<close>, and there is no key \<open>success\<close>.\<close>

definition claimed :: device where
  "claimed =
     fresh\<lparr>claim_token := Some (PStr ''t0k3n''),
           automated_claim_url := Some (PStr ''https://www.google.com/cloudprint/confirm?token=t0k3n''),
           claim_url := Some (PStr ''https://www.google.com/cloudprint/claimprinter.html'')\<rparr>"

definition empty_json_env :: env where
  "empty_json_env = (stub_env ''{}'')\<lparr>Read := (\<lambda>s. [(PStr ''json'', PBool True)])\<rparr>"

text \<open>Capability documents, as \<open>json.loads\<close> returns them.\<close>

definition text_no_capabilities :: string where
  "text_no_capabilities = ''{\"printers\":[{\"name\":\"X\"}]}''"

definition doc_no_capabilities :: pyval where
  "doc_no_capabilities = PDict [(PStr ''printers'', PList [PDict [(PStr ''name'', PStr ''X'')]])]"

definition text_no_printer :: string where
  "text_no_printer = ''{\"printers\":[]}''"

definition doc_no_printer :: pyval where
  "doc_no_printer = PDict [(PStr ''printers'', PList [])]"

definition cdd_env :: env where
  "cdd_env =
     (stub_env [])\<lparr>json_loads :=
        (\<lambda>s. if s = text_no_capabilities then Inr doc_no_capabilities
              else if s = text_no_printer then Inr doc_no_printer
              else Inl ValueError)\<rparr>"


section \<open>Basic facts\<close>

lemma str_in_iff: "str_in n h \<longleftrightarrow> (\<exists>ps ss. h = ps @ n @ ss)"
proof (induction h)
  case Nil
  then show ?case by auto
next
  case (Cons c cs)
  show ?case
  proof
    assume "str_in n (c # cs)"
    then consider "prefix n (c # cs)" | "str_in n cs" by auto
    then show "\<exists>ps ss. c # cs = ps @ n @ ss"
    proof cases
      case 1
      then obtain ss where "c # cs = n @ ss" by (auto simp: prefix_def)
      then have "c # cs = [] @ n @ ss" by simp
      then show ?thesis by blast
    next
      case 2
      with Cons obtain ps ss where "cs = ps @ n @ ss" by auto
      then have "c # cs = (c # ps) @ n @ ss" by simp
      then show ?thesis by blast
    qed
  next
    assume "\<exists>ps ss. c # cs = ps @ n @ ss"
    then obtain ps ss where h: "c # cs = ps @ n @ ss" by blast
    show "str_in n (c # cs)"
    proof (cases ps)
      case Nil
      with h have "prefix n (c # cs)" by (simp add: prefix_def)
      then show ?thesis by simp
    next
      case (Cons p ps')
      with h have "cs = ps' @ n @ ss" by simp
      with Cons.IH have "str_in n cs" by blast
      then show ?thesis by simp
    qed
  qed
qed

lemma pending_body_branches:
  "\<not> str_in ''token'' pending_body"
  "str_in ''error'' pending_body"
  "str_in ''pending_user_action'' pending_body"
  by (simp_all add: pending_body_def)

lemma fresh_constructed:
  "Device_init (stub_env body) PNone PNone w =
     (Inr fresh, record_request w (info_request (stub_env body) fresh))"
  by (simp add: Device_init_def GetPrivetInfo_def stub_env_def fresh_def Let_def http_def
      info_request_def key_eq_def)

lemma copy_info_keeps:
  "copy_info p ks d = (r, d') \<Longrightarrow>
     claim_token d' = claim_token d \<and> automated_claim_url d' = automated_claim_url d \<and>
     claim_url d' = claim_url d \<and> device_id d' = device_id d"
proof (induction ks arbitrary: d)
  case Nil
  then show ?case by simp
next
  case (Cons k ks)
  show ?case
  proof (cases "py_getitem (PDict p) k")
    case (Inl err)
    with Cons.prems show ?thesis by simp
  next
    case (Inr v)
    with Cons.prems
    have "copy_info p ks (d\<lparr>privet_info := dict_set k v (privet_info d)\<rparr>) = (r, d')"
      by simp
    from Cons.IH[OF this] show ?thesis by simp
  qed
qed

lemma GetPrivetInfo_keeps:
  assumes "GetPrivetInfo e d w = (r, d', w')"
  shows "claim_token d' = claim_token d \<and> automated_claim_url d' = automated_claim_url d \<and>
     claim_url d' = claim_url d \<and> device_id d' = device_id d"
  using assms
  by (auto simp: GetPrivetInfo_def Let_def split: sum.splits if_splits prod.splits
      dest!: copy_info_keeps)

text \<open>Whatever the collaborators, a constructed device has none of the four attributes.\<close>

lemma constructed_has_no_registration_attributes:
  assumes "Device_init e m p w = (Inr d, w1)"
  shows "claim_token d = None \<and> automated_claim_url d = None \<and> claim_url d = None \<and>
    device_id d = None"
  using assms
  by (auto simp: Device_init_def Let_def split: sum.splits prod.splits dest!: GetPrivetInfo_keeps)

section \<open>The poll loop\<close>

lemma pending_step:
  assumes "data (http e w (claim_request e d)) = pending_body" "counter < max_cycles"
  shows "claim_loop e counter d w =
         claim_loop e (counter + 1) d (record_request w (claim_request e d))"
  using assms by (subst claim_loop.simps) (simp add: pending_body_branches Let_def)

lemma silent_step:
  assumes "\<not> str_in ''token'' (data (http e w (claim_request e d)))"
    "\<not> str_in ''error'' (data (http e w (claim_request e d)))" "counter < max_cycles"
  shows "claim_loop e counter d w = claim_loop e counter d (record_request w (claim_request e d))"
  using assms by (subst claim_loop.simps) (simp add: Let_def)

lemma token_step:
  assumes "str_in ''token'' (data (http e w (claim_request e d)))" "counter < max_cycles"
  shows "claim_loop e counter d w =
         Some (Inr True,
               d\<lparr>claim_token := Some (GetValue e (data (http e w (claim_request e d))) ''token''),
                 automated_claim_url :=
                   Some (GetValue e (data (http e w (claim_request e d))) ''automated_claim_url''),
                 claim_url := Some (GetValue e (data (http e w (claim_request e d))) ''claim_url'')\<rparr>,
               record_request w (claim_request e d))"
  using assms by (subst claim_loop.simps) (simp add: Let_def)

lemma exhausted: "claim_loop e max_cycles d w = Some (Inr False, d, w)"
  by (subst claim_loop.simps) simp

lemma silent_transport_never_returns:
  fixes y :: "(py_error + bool) \<times> device \<times> world"
  assumes a: "claim_loop e c d w = Some y"
  shows "\<not> ((\<forall>h r. \<not> str_in ''token'' (data (HTTPReq e h r)) \<and>
                  \<not> str_in ''error'' (data (HTTPReq e h r))) \<and> c < max_cycles)"
proof (rule claim_loop.raw_induct
    [where P = "\<lambda>e c d w y. \<not> ((\<forall>h r. \<not> str_in ''token'' (data (HTTPReq e h r)) \<and>
                  \<not> str_in ''error'' (data (HTTPReq e h r))) \<and> c < max_cycles)", OF _ a])
  fix loop :: "env \<Rightarrow> int \<Rightarrow> device \<Rightarrow> world \<Rightarrow> ((py_error + bool) \<times> device \<times> world) option"
    and e c d w and y :: "(py_error + bool) \<times> device \<times> world"
  assume IH: "\<And>e c d w y. loop e c d w = Some y \<Longrightarrow>
      \<not> ((\<forall>h r. \<not> str_in ''token'' (data (HTTPReq e h r)) \<and>
                  \<not> str_in ''error'' (data (HTTPReq e h r))) \<and> c < max_cycles)"
    and body: "(if c < max_cycles then
        (let resp = http e w (claim_request e d);
             w1 = record_request w (claim_request e d);
             logged = LogData e resp
         in if str_in ''token'' (data resp) then
              Some (Inr True,
                    d\<lparr>claim_token := Some (GetValue e (data resp) ''token''),
                      automated_claim_url := Some (GetValue e (data resp) ''automated_claim_url''),
                      claim_url := Some (GetValue e (data resp) ''claim_url'')\<rparr>,
                    w1)
            else if str_in ''error'' (data resp) then
              (if str_in ''pending_user_action'' (data resp)
               then loop e (c + 1) d w1
               else Some (Inr False, d, w1))
            else loop e c d w1)
      else Some (Inr False, d, w)) = Some y"
  show "\<not> ((\<forall>h r. \<not> str_in ''token'' (data (HTTPReq e h r)) \<and>
                  \<not> str_in ''error'' (data (HTTPReq e h r))) \<and> c < max_cycles)"
  proof
    assume q: "(\<forall>h r. \<not> str_in ''token'' (data (HTTPReq e h r)) \<and>
                  \<not> str_in ''error'' (data (HTTPReq e h r))) \<and> c < max_cycles"
    then have n: "\<not> str_in ''token'' (data (http e w (claim_request e d)))"
      "\<not> str_in ''error'' (data (http e w (claim_request e d)))"
      by (simp_all add: http_def)
    with q body have "loop e c d (record_request w (claim_request e d)) = Some y"
      by (simp add: Let_def)
    from IH[OF this] q show False by simp
  qed
qed

text \<open>
  Claim C1 says that \<open>GetPrivetClaimToken\<close> ends after at most 5 polls on every sequence of
  responses. The source's comment on \<open>max_cycles\<close> says the same, but the counter grows
  only on \<open>pending_user_action\<close>: on a transport whose every body is the JSON object \<open>{}\<close>,
  which holds neither \<open>token\<close> nor \<open>error\<close>, the call polls for ever and does not return.
\<close>

theorem poll_of_empty_objects_never_returns:
  "GetPrivetClaimToken (stub_env ''{}'') d w = None"
proof (cases "GetPrivetClaimToken (stub_env ''{}'') d w")
  case None
  then show ?thesis .
next
  case (Some y)
  then have "claim_loop (stub_env ''{}'') 0 d w = Some y"
    by (simp add: GetPrivetClaimToken_def)
  from silent_transport_never_returns[OF this] show ?thesis
    by (simp add: stub_env_def max_cycles_def)
qed

text \<open>A call that does return can make more than 5 polls: here the seventh answers.\<close>

lemma seven_polls_before_token:
  "GetPrivetClaimToken late_env fresh nothing_yet =
     Some (Inr True,
           fresh\<lparr>claim_token := Some PNone, automated_claim_url := Some PNone,
                 claim_url := Some PNone\<rparr>,
           \<lparr>sent = replicate 7 (claim_request late_env fresh), console = []\<rparr>)"
proof -
  let ?r = "claim_request late_env fresh"
  have body: "data (http late_env \<lparr>sent = replicate n ?r, console = []\<rparr> ?r) =
      (if n < 6 then ''{}'' else token_body)" for n
    by (simp add: http_def late_env_def)
  have quiet: "claim_loop late_env 0 fresh \<lparr>sent = replicate n ?r, console = []\<rparr> =
       claim_loop late_env 0 fresh \<lparr>sent = replicate (Suc n) ?r, console = []\<rparr>" if "n < 6" for n
  proof -
    have "claim_loop late_env 0 fresh \<lparr>sent = replicate n ?r, console = []\<rparr> =
       claim_loop late_env 0 fresh (record_request \<lparr>sent = replicate n ?r, console = []\<rparr> ?r)"
      using that by (intro silent_step) (simp_all add: body max_cycles_def)
    then show ?thesis
      by (simp add: record_request_def replicate_append_same)
  qed
  have "claim_loop late_env 0 fresh \<lparr>sent = replicate 0 ?r, console = []\<rparr> =
      claim_loop late_env 0 fresh \<lparr>sent = replicate 6 ?r, console = []\<rparr>"
    by (simp add: quiet numeral_eq_Suc del: replicate.simps)
  also have "\<dots> = Some (Inr True,
           fresh\<lparr>claim_token := Some PNone, automated_claim_url := Some PNone,
                 claim_url := Some PNone\<rparr>,
           record_request \<lparr>sent = replicate 6 ?r, console = []\<rparr> ?r)"
  proof -
    have gv: "GetValue late_env b k = PNone" for b k
      by (simp add: late_env_def stub_env_def)
    have tk: "str_in ''token'' (data (http late_env \<lparr>sent = replicate 6 ?r, console = []\<rparr> ?r))"
      by (simp add: body token_body_def)
    have "(0::int) < max_cycles" by (simp add: max_cycles_def)
    from token_step[OF tk this] show ?thesis by (simp add: gv)
  qed
  finally show ?thesis
    by (simp add: GetPrivetClaimToken_def nothing_yet_def record_request_def numeral_eq_Suc)
qed

text \<open>
  Claim C3: when every response body is \<open>{"error":"pending_user_action"}\<close>,
  \<open>GetPrivetClaimToken\<close> returns \<open>False\<close>, and by then it has sent exactly 5 requests, all of
  them polls of the getClaimToken URL: it does not return earlier, and there is no sixth
  request. The device is unchanged.
\<close>

theorem pending_forever_fails_after_five_polls:
  assumes "\<forall>h r. data (HTTPReq e h r) = pending_body"
  shows "GetPrivetClaimToken e d w =
         Some (Inr False, d, w\<lparr>sent := sent w @ replicate 5 (claim_request e d)\<rparr>)"
proof -
  let ?r = "claim_request e d"
  have s: "claim_loop e c d v = claim_loop e (c + 1) d (record_request v ?r)"
    if "c < 5" for c v
    using assms that by (intro pending_step) (simp_all add: http_def max_cycles_def)
  have "claim_loop e 0 d w = claim_loop e 5 d (record_request (record_request
      (record_request (record_request (record_request w ?r) ?r) ?r) ?r) ?r)"
    by (simp add: s)
  also have "\<dots> = Some (Inr False, d, record_request (record_request
      (record_request (record_request (record_request w ?r) ?r) ?r) ?r) ?r)"
    using exhausted by (simp add: max_cycles_def)
  finally show ?thesis
    by (simp add: GetPrivetClaimToken_def record_request_def numeral_eq_Suc)
qed

theorem pending_forever_fails_after_five_polls_witness:
  "(\<forall>h r. data (HTTPReq (stub_env pending_body) h r) = pending_body) \<and>
   GetPrivetClaimToken (stub_env pending_body) fresh nothing_yet =
     Some (Inr False, fresh,
           \<lparr>sent = replicate 5 (claim_request (stub_env pending_body) fresh), console = []\<rparr>)"
proof -
  have h: "\<forall>h r. data (HTTPReq (stub_env pending_body) h r) = pending_body"
    by (simp add: stub_env_def)
  from pending_forever_fails_after_five_polls[OF h, of fresh nothing_yet] h
  show ?thesis by (simp add: nothing_yet_def)
qed

text \<open>
  Claim C9: the success branch is decided by substring containment on the raw body. When
  the body of the response to a poll contains the characters \<open>token\<close> anywhere, that poll
  (whatever the counter below the cap, and so also the first poll of \<open>GetPrivetClaimToken\<close>)
  returns \<open>True\<close> and assigns the three attributes whatever \<open>GetValue\<close> extracts; the witness
  is the body \<open>{"error":"token_expired"}\<close>, which has no field \<open>token\<close>.
\<close>

theorem token_substring_takes_success_branch:
  assumes "str_in ''token'' (data (http e w (claim_request e d)))"
  shows "(\<forall>counter. counter < max_cycles \<longrightarrow>
            claim_loop e counter d w =
              Some (Inr True,
                d\<lparr>claim_token := Some (GetValue e (data (http e w (claim_request e d))) ''token''),
                  automated_claim_url :=
                    Some (GetValue e (data (http e w (claim_request e d))) ''automated_claim_url''),
                  claim_url :=
                    Some (GetValue e (data (http e w (claim_request e d))) ''claim_url'')\<rparr>,
                record_request w (claim_request e d)))
       \<and> GetPrivetClaimToken e d w =
              Some (Inr True,
                d\<lparr>claim_token := Some (GetValue e (data (http e w (claim_request e d))) ''token''),
                  automated_claim_url :=
                    Some (GetValue e (data (http e w (claim_request e d))) ''automated_claim_url''),
                  claim_url :=
                    Some (GetValue e (data (http e w (claim_request e d))) ''claim_url'')\<rparr>,
                record_request w (claim_request e d))"
  using token_step[OF assms] by (simp add: GetPrivetClaimToken_def max_cycles_def)

theorem token_substring_takes_success_branch_witness:
  "str_in ''token'' token_expired_body \<and>
   GetValue (stub_env token_expired_body) token_expired_body ''token'' = PNone \<and>
   GetPrivetClaimToken (stub_env token_expired_body) fresh nothing_yet =
     Some (Inr True,
           fresh\<lparr>claim_token := Some PNone, automated_claim_url := Some PNone,
                 claim_url := Some PNone\<rparr>,
           \<lparr>sent = [claim_request (stub_env token_expired_body) fresh], console = []\<rparr>)"
proof -
  have t: "str_in ''token'' token_expired_body"
    by (simp add: token_expired_body_def)
  then have h: "str_in ''token''
      (data (http (stub_env token_expired_body) nothing_yet
         (claim_request (stub_env token_expired_body) fresh)))"
    by (simp add: http_def stub_env_def)
  from token_substring_takes_success_branch[OF h] t
  show ?thesis
    by (simp add: http_def stub_env_def nothing_yet_def record_request_def)
qed

section \<open>Registration attributes that were never assigned\<close>

text \<open>
  Claim C4 says that \<open>SendClaimToken\<close> on a device that never obtained a claim token returns
  a failure and sends nothing. The guard \<open>if not self.claim_token\<close> and its log message show
  that the source means to do so, but \<open>__init__\<close> never assigns \<open>claim_token\<close>: on a newly
  constructed device the guard itself raises \<open>AttributeError\<close>. No request is sent, and the
  device is unchanged.
\<close>

theorem send_claim_token_on_new_device_raises:
  "(case Device_init (stub_env body) PNone PNone w of
      (Inr d, w1) \<Rightarrow>
        SendClaimToken (stub_env body) auth_token d w1 = (Inl AttributeError, d, w1)
    | (Inl err, w1) \<Rightarrow> False)"
  by (simp add: fresh_constructed SendClaimToken_def fresh_def)


text \<open>Once the attributes exist, an empty token or URL is the returned failure of the guards.\<close>

lemma send_claim_token_guards:
  "claim_token d = Some tok \<and> \<not> truthy tok \<Longrightarrow> SendClaimToken e a d w = (Inr False, d, w)"
  "claim_token d = Some tok \<and> truthy tok \<and> automated_claim_url d = Some u \<and> \<not> truthy u \<Longrightarrow>
     SendClaimToken e a d w = (Inr False, d, w)"
  by (simp_all add: SendClaimToken_def)

lemma fresh_attributes: "claim_token fresh = None" "device_id fresh = None"
  by (simp_all add: fresh_def)

lemma finish_on_fresh:
  "FinishPrivetRegister (stub_env body) fresh w =
     (Inr True, fresh, record_request w (complete_request (stub_env body) fresh))"
  by (simp add: FinishPrivetRegister_def Let_def stub_env_def key_eq_def http_def)

text \<open>
  Claim C5 says that \<open>UnRegister\<close> on a device without a device id returns a failure and
  sends no delete request. The \<open>else\<close> branch of \<open>if self.id\<close> is written for that, but
  \<open>__init__\<close> never assigns \<open>id\<close>: on a newly constructed device, and also after a
  \<open>FinishPrivetRegister\<close> that returned \<open>True\<close> without adopting an id, \<open>UnRegister\<close> raises
  \<open>AttributeError\<close>. No delete request is sent.
\<close>

theorem unregister_on_new_device_raises:
  "(case Device_init (stub_env body) PNone PNone w of
      (Inr d, w1) \<Rightarrow>
        UnRegister (stub_env body) auth_token d w1 = (Inl AttributeError, d, w1)
        \<and> (case FinishPrivetRegister (stub_env body) d w1 of
              (r, d2, w2) \<Rightarrow>
                r = Inr True \<and> device_id d2 = None
                \<and> UnRegister (stub_env body) auth_token d2 w2 = (Inl AttributeError, d2, w2))
    | (Inl err, w1) \<Rightarrow> False)"
  by (simp add: fresh_constructed finish_on_fresh UnRegister_def fresh_attributes)

text \<open>The returned failure is reached only when \<open>id\<close> exists and is empty, as after a
  successful \<open>UnRegister\<close>.\<close>

lemma unregister_after_unregister:
  "device_id d = Some i \<and> \<not> truthy i \<Longrightarrow> UnRegister e a d w = (Inr False, d, w)"
  by (simp add: UnRegister_def)

section \<open>Order of the registration calls\<close>

text \<open>
  Claim C2, as amended: \<open>FinishPrivetRegister\<close> checks no registration state. In every state
  of the device, and so also before \<open>SendClaimToken\<close> has succeeded, it sends the request to
  the complete URL, and that is the only request it sends; nothing rejects the call
  before the request.
\<close>

theorem finish_performs_completion_call_in_every_state:
  "sent (snd (snd (FinishPrivetRegister e d w))) = sent w @ [complete_request e d]"
  by (simp add: FinishPrivetRegister_def Let_def record_request_def split: sum.splits prod.splits)

text \<open>
  Claim C2 as stated fails: on a newly constructed device, which has no claim token and on
  which \<open>SendClaimToken\<close> does not succeed, \<open>FinishPrivetRegister\<close> is not rejected. It sends
  the completion request and returns \<open>True\<close>.
\<close>

theorem finish_before_send_is_not_rejected:
  "claim_token fresh = None \<and>
   SendClaimToken (stub_env []) (PStr ''auth'') fresh nothing_yet = (Inl AttributeError, fresh, nothing_yet) \<and>
   FinishPrivetRegister (stub_env []) fresh nothing_yet =
     (Inr True, fresh, \<lparr>sent = [complete_request (stub_env []) fresh], console = []\<rparr>)"
  by (simp add: FinishPrivetRegister_def SendClaimToken_def Let_def record_request_def stub_env_def
      http_def nothing_yet_def key_eq_def fresh_def)

section \<open>The response to SendClaimToken\<close>

text \<open>
  Claim C6 says that a response that is JSON but has no success indicator makes
  \<open>SendClaimToken\<close> return \<open>False\<close>. On a device that holds a claim token, with a response
  that the JSON helper reads as JSON and that has no key \<open>success\<close>, the lookup
  \<open>info['success']\<close> raises \<open>KeyError\<close> after the request was sent: no \<open>False\<close> is returned.
\<close>

theorem send_claim_token_without_success_key_raises:
  "dict_get (Read empty_json_env ''{}'') (PStr ''json'') = Some (PBool True) \<and>
   dict_get (Read empty_json_env ''{}'') (PStr ''success'') = None \<and>
   SendClaimToken empty_json_env (PStr ''auth'') claimed nothing_yet =
     (Inl KeyError, claimed,
      \<lparr>sent = [send_request empty_json_env
                 (PStr ''https://www.google.com/cloudprint/confirm?token=t0k3n'') (PStr ''auth'')],
        console = []\<rparr>)"
  by (simp add: SendClaimToken_def empty_json_env_def claimed_def fresh_def stub_env_def Let_def
      http_def record_request_def nothing_yet_def key_eq_def)

text \<open>The rest of the claim holds: \<open>True\<close> needs a truthy \<open>json\<close> and a truthy \<open>success\<close>, and
  a \<open>success\<close> that is present and falsy gives \<open>False\<close>.\<close>

lemma send_claim_token_True_only:
  assumes "fst (SendClaimToken e a d w) = Inr True"
  shows "\<exists>tok u j ok. claim_token d = Some tok \<and> truthy tok \<and>
           automated_claim_url d = Some u \<and> truthy u \<and>
           dict_get (Read e (data (http e w (send_request e u a)))) (PStr ''json'') = Some j \<and>
           truthy j \<and>
           dict_get (Read e (data (http e w (send_request e u a)))) (PStr ''success'') = Some ok \<and>
           truthy ok"
  using assms
  by (auto simp: SendClaimToken_def Let_def split: option.splits if_splits sum.splits)

lemma send_claim_token_False_on_falsy_success:
  assumes "claim_token d = Some tok" "truthy tok" "automated_claim_url d = Some u" "truthy u"
    "dict_get (Read e (data (http e w (send_request e u a)))) (PStr ''json'') = Some j"
    "dict_get (Read e (data (http e w (send_request e u a)))) (PStr ''success'') = Some ok"
    "\<not> truthy ok"
  shows "fst (SendClaimToken e a d w) = Inr False"
  using assms by (simp add: SendClaimToken_def Let_def)

section \<open>Failures of ParseCDD\<close>

text \<open>
  Claim C7 says that \<open>ParseCDD\<close> returns \<open>False\<close> and sets nothing on three inputs. On the
  third, a document whose first printer has no key \<open>capabilities\<close>, the first loop has
  already copied the printer's other fields into \<open>self.cdd\<close> when
  \<open>cdd['printers'][0]['capabilities']\<close> raises \<open>KeyError\<close>: here for the document
  \<open>{"printers":[{"name":"X"}]}\<close>.
\<close>

theorem parse_cdd_without_capabilities_raises:
  "json_loads cdd_env text_no_capabilities = Inr doc_no_capabilities \<and>
   ParseCDD cdd_env (fresh\<lparr>info := PStr text_no_capabilities\<rparr>) =
     (Inl KeyError, fresh\<lparr>info := PStr text_no_capabilities, cdd := [(PStr ''name'', PStr ''X'')]\<rparr>)"
  by (simp add: ParseCDD_def loads_info_def cdd_env_def stub_env_def text_no_capabilities_def
      doc_no_capabilities_def first_printer_def printer_field_def printer_caps_def and_then_def
      seq_index_def seq_position_def key_eq_def fresh_def)

text \<open>On the other two inputs of the claim the source does return \<open>False\<close> and sets nothing.\<close>

lemma parse_cdd_empty_document:
  "\<not> truthy (info d) \<Longrightarrow> ParseCDD e d = (Inr False, d)"
  by (simp add: ParseCDD_def)

lemma parse_cdd_missing_printers:
  assumes "info d = PStr s" "s \<noteq> []" "json_loads e s = Inr (PDict kvs)"
    "dict_get kvs (PStr ''printers'') = None"
  shows "ParseCDD e d = (Inr False, d)"
  using assms by (simp add: ParseCDD_def loads_info_def)

text \<open>
  Claim C10: when the document is an object whose key \<open>printers\<close> maps to the empty list,
  the access \<open>cdd['printers'][0]\<close> is out of range: \<open>ParseCDD\<close> raises \<open>IndexError\<close>, returns
  no \<open>False\<close>, and leaves the device as it was.
\<close>

theorem parse_cdd_empty_printers_list_raises_IndexError:
  assumes "info d = PStr s" "s \<noteq> []" "json_loads e s = Inr (PDict kvs)"
    "dict_get kvs (PStr ''printers'') = Some (PList [])"
  shows "ParseCDD e d = (Inl IndexError, d)"
  using assms
  by (simp add: ParseCDD_def loads_info_def first_printer_def and_then_def seq_index_def
      seq_position_def)

theorem parse_cdd_empty_printers_list_raises_IndexError_witness:
  "info (fresh\<lparr>info := PStr text_no_printer\<rparr>) = PStr text_no_printer \<and>
   text_no_printer \<noteq> [] \<and>
   json_loads cdd_env text_no_printer = Inr (PDict [(PStr ''printers'', PList [])]) \<and>
   dict_get [(PStr ''printers'', PList [])] (PStr ''printers'') = Some (PList []) \<and>
   ParseCDD cdd_env (fresh\<lparr>info := PStr text_no_printer\<rparr>) =
     (Inl IndexError, fresh\<lparr>info := PStr text_no_printer\<rparr>)"
proof -
  have a: "info (fresh\<lparr>info := PStr text_no_printer\<rparr>) = PStr text_no_printer" by simp
  have b: "text_no_printer \<noteq> []" by (simp add: text_no_printer_def)
  have c: "json_loads cdd_env text_no_printer = Inr (PDict [(PStr ''printers'', PList [])])"
    by (simp add: cdd_env_def text_no_printer_def text_no_capabilities_def doc_no_printer_def)
  have d: "dict_get [(PStr ''printers'', PList [])] (PStr ''printers'') = Some (PList [])"
    by (simp add: key_eq_def)
  from parse_cdd_empty_printers_list_raises_IndexError[OF a b c d] a b c d
  show ?thesis by simp
qed

section \<open>GetDeviceDetails\<close>




























end
